theory Spec2Isabelle
  imports Complex_Main "HOL-Library.Word"
begin

section \<open>Python exceptions\<close>

text \<open>
  An exception object is its class, the classes it inherits from and its message.
  An \<open>except C\<close> clause catches every exception that is an instance of \<open>C\<close>, that
  is, whose class is \<open>C\<close> or a subclass of it; a bare \<open>except:\<close> catches all.
\<close>

record py_exception =
  exc_class :: string
  exc_bases :: "string list"
  exc_msg :: string

definition isinstance :: "py_exception \<Rightarrow> string \<Rightarrow> bool" where
  "isinstance e c = (exc_class e = c \<or> c \<in> set (exc_bases e))"

definition builtin_error :: "string \<Rightarrow> string \<Rightarrow> py_exception" where
  "builtin_error c m = \<lparr>exc_class = c, exc_bases = [''Exception'', ''BaseException''], exc_msg = m\<rparr>"

definition AttributeError :: "string \<Rightarrow> py_exception" where
  "AttributeError m = builtin_error ''AttributeError'' m"

definition TypeError :: "string \<Rightarrow> py_exception" where
  "TypeError m = builtin_error ''TypeError'' m"

definition ValueError :: "string \<Rightarrow> py_exception" where
  "ValueError m = builtin_error ''ValueError'' m"

definition IndexError :: "string \<Rightarrow> py_exception" where
  "IndexError m = builtin_error ''IndexError'' m"

definition OSError :: "string \<Rightarrow> py_exception" where
  "OSError m = builtin_error ''OSError'' m"

definition MemoryError :: "string \<Rightarrow> py_exception" where
  "MemoryError m = builtin_error ''MemoryError'' m"

definition OverflowError :: "string \<Rightarrow> py_exception" where
  "OverflowError m = \<lparr>exc_class = ''OverflowError'',
     exc_bases = [''ArithmeticError'', ''Exception'', ''BaseException''], exc_msg = m\<rparr>"

text \<open>\<open>fysom.FysomError\<close> is declared as \<open>class FysomError(Exception)\<close>.\<close>

definition FysomError :: "string \<Rightarrow> py_exception" where
  "FysomError m = builtin_error ''FysomError'' m"

section \<open>Images (the part of PIL that \<open>ayab.py\<close> calls)\<close>

text \<open>
  A PIL image is its mode, its size \<open>(width, height)\<close> and its pixels. A pixel is
  the list of its band values, one byte per band: one band in mode \<open>L\<close>, three in
  \<open>RGB\<close>, four in \<open>RGBA\<close>. \<open>im_px im x y\<close> is \<open>im.getpixel((x, y))\<close>.
  The program only ever holds \<open>RGBA\<close> images (after loading) and \<open>RGB\<close> images
  (after invert or repeat); mode \<open>L\<close> is the mode of the bands that \<open>split\<close> returns.
\<close>

datatype mode = L | RGB | RGBA

type_synonym pixel = "8 word list"

record image =
  im_mode :: mode
  im_size :: "nat \<times> nat"
  im_px :: "nat \<Rightarrow> nat \<Rightarrow> pixel"

definition im_width :: "image \<Rightarrow> nat" where
  "im_width im = fst (im_size im)"

definition im_height :: "image \<Rightarrow> nat" where
  "im_height im = snd (im_size im)"

fun getmodebands :: "mode \<Rightarrow> nat" where
  "getmodebands L = 1"
| "getmodebands RGB = 3"
| "getmodebands RGBA = 4"

text \<open>
  Pillow's luma transform for a conversion to mode \<open>L\<close>:
  \<open>(R * 19595 + G * 38470 + B * 7471 + 0x8000) >> 16\<close>.
\<close>

definition luma :: "8 word \<Rightarrow> 8 word \<Rightarrow> 8 word \<Rightarrow> 8 word" where
  "luma r g b = of_nat ((unat r * 19595 + unat g * 38470 + unat b * 7471 + 32768) div 65536)"

text \<open>
  \<open>convert_pixel src dst p\<close>: one pixel under \<open>Image.convert\<close>. Converting \<open>RGBA\<close>
  to \<open>RGB\<close> copies the three colour bands and drops the alpha band; a conversion to
  \<open>RGBA\<close> adds an opaque alpha band.
\<close>

fun convert_pixel :: "mode \<Rightarrow> mode \<Rightarrow> pixel \<Rightarrow> pixel" where
  "convert_pixel L L p = p"
| "convert_pixel RGB RGB p = p"
| "convert_pixel RGBA RGBA p = p"
| "convert_pixel L RGB p = [p ! 0, p ! 0, p ! 0]"
| "convert_pixel L RGBA p = [p ! 0, p ! 0, p ! 0, 255]"
| "convert_pixel RGB RGBA p = [p ! 0, p ! 1, p ! 2, 255]"
| "convert_pixel RGBA RGB p = [p ! 0, p ! 1, p ! 2]"
| "convert_pixel RGB L p = [luma (p ! 0) (p ! 1) (p ! 2)]"
| "convert_pixel RGBA L p = [luma (p ! 0) (p ! 1) (p ! 2)]"

definition convert :: "mode \<Rightarrow> image \<Rightarrow> image" where
  "convert m im = \<lparr>im_mode = m, im_size = im_size im,
     im_px = (\<lambda>x y. convert_pixel (im_mode im) m (im_px im x y))\<rparr>"

text \<open>
  \<open>Image.new(mode, (w, h))\<close>: a canvas filled with colour 0. The size arrives as
  Python integers. A negative side raises \<open>ValueError\<close>. The sides are passed to
  PIL's C core as C \<open>int\<close>s, so a side above \<open>2147483647\<close> raises
  \<open>OverflowError\<close>. The core then has to allocate the canvas, and raises
  \<open>MemoryError\<close> when it cannot; which sizes it can allocate depends on the
  machine and is the parameter \<open>can_allocate\<close>.
\<close>

definition INT_MAX :: int where
  "INT_MAX = 2147483647"

definition Image_new :: "(nat \<times> nat \<Rightarrow> bool) \<Rightarrow> mode \<Rightarrow> int \<times> int \<Rightarrow> py_exception + image" where
  "Image_new can_allocate m sz =
     (if fst sz < 0 \<or> snd sz < 0 then Inl (ValueError ''Width and height must be >= 0'')
      else if INT_MAX < fst sz \<or> INT_MAX < snd sz
        then Inl (OverflowError ''Python int too large to convert to C int'')
      else if \<not> can_allocate (nat (fst sz), nat (snd sz)) then Inl (MemoryError [])
      else Inr \<lparr>im_mode = m, im_size = (nat (fst sz), nat (snd sz)),
                im_px = (\<lambda>x y. replicate (getmodebands m) 0)\<rparr>)"

text \<open>
  \<open>dst.paste(src, (bx, by))\<close> without a mask: \<open>src\<close>, converted to the mode of
  \<open>dst\<close> when the modes differ, overwrites the box of its own size whose upper left
  corner is \<open>(bx, by)\<close>, clipped to \<open>dst\<close>. Every other pixel of \<open>dst\<close> stays.
\<close>

definition paste :: "image \<Rightarrow> image \<Rightarrow> nat \<times> nat \<Rightarrow> image" where
  "paste dst src box =
     dst\<lparr>im_px := (\<lambda>x y.
        if fst box \<le> x \<and> x < fst box + im_width src \<and> x < im_width dst \<and>
           snd box \<le> y \<and> y < snd box + im_height src \<and> y < im_height dst
        then convert_pixel (im_mode src) (im_mode dst) (im_px src (x - fst box) (y - snd box))
        else im_px dst x y)\<rparr>"

text \<open>\<open>im.split()\<close>: one mode \<open>L\<close> image per band.\<close>

definition split :: "image \<Rightarrow> image list" where
  "split im = map (\<lambda>k. \<lparr>im_mode = L, im_size = im_size im,
                          im_px = (\<lambda>x y. [im_px im x y ! k])\<rparr>)
                  [0 ..< getmodebands (im_mode im)]"

text \<open>
  \<open>Image.merge(mode, bands)\<close>: raises \<open>ValueError\<close> unless there are as many bands
  as the mode has, each of mode \<open>L\<close> and all of one size.
\<close>

definition merge :: "mode \<Rightarrow> image list \<Rightarrow> py_exception + image" where
  "merge m bs =
     (if getmodebands m \<noteq> length bs then Inl (ValueError ''wrong number of bands'')
      else if list_ex (\<lambda>b. im_mode b \<noteq> L) bs then Inl (ValueError ''mode mismatch'')
      else if list_ex (\<lambda>b. im_size b \<noteq> im_size (hd bs)) bs then Inl (ValueError ''size mismatch'')
      else Inr \<lparr>im_mode = m, im_size = im_size (hd bs),
                im_px = (\<lambda>x y. map (\<lambda>b. im_px b x y ! 0) bs)\<rparr>)"

text \<open>
  \<open>PIL.ImageOps.invert(im)\<close>: the lookup table \<open>255 - i\<close> applied to every band of
  an \<open>L\<close> or \<open>RGB\<close> image; any other mode raises (\<open>not supported for this image mode\<close>).
\<close>

definition ImageOps_invert :: "image \<Rightarrow> py_exception + image" where
  "ImageOps_invert im =
     (if im_mode im = L \<or> im_mode im = RGB
      then Inr (im\<lparr>im_px := (\<lambda>x y. map (\<lambda>c. 255 - c) (im_px im x y))\<rparr>)
      else Inl (OSError ''not supported for this image mode''))"

text \<open>\<open>PIL.ImageOps.mirror\<close> and \<open>flip\<close>: left-right and top-bottom transposition.\<close>

definition ImageOps_mirror :: "image \<Rightarrow> image" where
  "ImageOps_mirror im = im\<lparr>im_px := (\<lambda>x y. im_px im (im_width im - 1 - x) y)\<rparr>"

definition ImageOps_flip :: "image \<Rightarrow> image" where
  "ImageOps_flip im = im\<lparr>im_px := (\<lambda>x y. im_px im x (im_height im - 1 - y))\<rparr>"

text \<open>
  \<open>im.rotate(angle, expand=1)\<close>, counter-clockwise. PIL reduces the angle modulo 360
  and turns by whole quarters exactly, as transpositions; the canvas of a quarter
  turn has the sides swapped. For any other angle PIL resamples the image, which is
  outside this development: that case is the parameter \<open>resample\<close>.
\<close>

definition Image_rotate :: "(image \<Rightarrow> int \<Rightarrow> image) \<Rightarrow> image \<Rightarrow> int \<Rightarrow> image" where
  "Image_rotate resample im angle =
     (let a = angle mod 360; w = im_width im; h = im_height im in
      if a = 0 then im
      else if a = 90 then
        \<lparr>im_mode = im_mode im, im_size = (h, w), im_px = (\<lambda>x y. im_px im (w - 1 - y) x)\<rparr>
      else if a = 180 then
        im\<lparr>im_px := (\<lambda>x y. im_px im (w - 1 - x) (h - 1 - y))\<rparr>
      else if a = 270 then
        \<lparr>im_mode = im_mode im, im_size = (h, w), im_px = (\<lambda>x y. im_px im y (h - 1 - x))\<rparr>
      else resample im angle)"

section \<open>The transforms of \<open>GuiMain\<close>\<close>

text \<open>
  Every transform takes the image and the tuple \<open>args\<close> that
  \<open>apply_image_transform\<close> forwards, and returns a new image or raises. The
  arguments are integers: the two counts of \<open>repeat\<close>, and the angle of \<open>rotate\<close>
  in degrees (the source passes \<open>90.0\<close> and \<open>-90.0\<close>).
\<close>

definition GuiMain__rotate_image :: "(image \<Rightarrow> int \<Rightarrow> image) \<Rightarrow> image \<Rightarrow> int list \<Rightarrow> py_exception + image" where
  "GuiMain__rotate_image resample img args =
     (if args = [] then Inr img
      else Inr (Image_rotate resample img (args ! 0)))"

definition GuiMain__invert_image :: "image \<Rightarrow> int list \<Rightarrow> py_exception + image" where
  "GuiMain__invert_image img args =
     (if im_mode img = RGBA then
        (case split img of
           [r, g, b, a] \<Rightarrow>
             (case merge RGB [r, g, b] of
                Inl e \<Rightarrow> Inl e
              | Inr rgb_image \<Rightarrow> ImageOps_invert rgb_image)
         | _ \<Rightarrow> Inl (ValueError ''not enough values to unpack''))
      else ImageOps_invert img)"

definition GuiMain__mirror_image :: "image \<Rightarrow> int list \<Rightarrow> py_exception + image" where
  "GuiMain__mirror_image img args = Inr (ImageOps_mirror img)"

definition GuiMain__flip_image :: "image \<Rightarrow> int list \<Rightarrow> py_exception + image" where
  "GuiMain__flip_image img args = Inr (ImageOps_flip img)"

text \<open>
  \<open>range(0, stop, step)\<close> for the two loops of \<open>__repeat_image\<close>, whose bounds are
  image sides: \<open>0, step, 2 * step, ...\<close> below \<open>stop\<close>; a step of 0 raises.
\<close>

definition py_range :: "nat \<Rightarrow> nat \<Rightarrow> py_exception + nat list" where
  "py_range stop step =
     (if step = 0 then Inl (ValueError ''range() arg 3 must not be zero'')
      else Inr (map (\<lambda>k. k * step) [0 ..< (stop + step - 1) div step]))"

text \<open>The inner loop: one row of tiles, pasted at height \<open>h\<close>.\<close>

definition paste_row :: "image \<Rightarrow> nat \<Rightarrow> nat list \<Rightarrow> image \<Rightarrow> image" where
  "paste_row img h ws new_im = fold (\<lambda>w im. paste im img (w, h)) ws new_im"

text \<open>
  The outer loop. The inner \<open>range\<close> is evaluated once per row, so its
  \<open>ValueError\<close> needs a first row.
\<close>

fun paste_rows :: "image \<Rightarrow> nat \<Rightarrow> nat list \<Rightarrow> image \<Rightarrow> py_exception + image" where
  "paste_rows img new_w [] new_im = Inr new_im"
| "paste_rows img new_w (h # hs) new_im =
     (case py_range new_w (im_width img) of
        Inl e \<Rightarrow> Inl e
      | Inr ws \<Rightarrow> paste_rows img new_w hs (paste_row img h ws new_im))"

definition GuiMain__repeat_image ::
  "(nat \<times> nat \<Rightarrow> bool) \<Rightarrow> image \<Rightarrow> int list \<Rightarrow> py_exception + image" where
  "GuiMain__repeat_image can_allocate img args =
     (let old_h = im_height img; old_w = im_width img in
      if length args < 1 then Inl (IndexError ''tuple index out of range'')
      else let new_h = int old_h * (args ! 0) in
      if length args < 2 then Inl (IndexError ''tuple index out of range'')
      else let new_w = int old_w * (args ! 1) in
      case Image_new can_allocate RGB (new_w, new_h) of
        Inl e \<Rightarrow> Inl e
      | Inr new_im \<Rightarrow>
          (case py_range (nat new_h) old_h of
             Inl e \<Rightarrow> Inl e
           | Inr hs \<Rightarrow> paste_rows img (nat new_w) hs new_im))"

section \<open>Logging\<close>

text \<open>The root logger: the records written so far, oldest first.\<close>

datatype log_level = DEBUG | INFO | WARNING | ERROR

type_synonym log_record = "log_level \<times> string"

section \<open>Plugins\<close>

text \<open>
  The knitting plugins are not part of \<open>ayab.py\<close>; the file only calls their
  methods. For each method the plugin object carries what a call does as far as the
  caller can tell: \<open>None\<close> when it returns, \<open>Some e\<close> when it raises \<open>e\<close>. The
  call itself is recorded in \<open>plugin_calls\<close>, in the order of the calls.
  A yapsy \<open>PluginInfo\<close> has a name and a \<open>plugin_object\<close>, which is \<open>None\<close> when
  the plugin could not be loaded; \<open>pi_repr\<close> is the text that formatting the
  \<open>PluginInfo\<close> gives.
\<close>

record plugin_object =
  po_setup_ui :: "py_exception option"
  po_cleanup_ui :: "py_exception option"
  po_slotSetImageDimensions :: "nat \<Rightarrow> nat \<Rightarrow> py_exception option"
  po_knit :: "py_exception option"

record plugin_info =
  pi_name :: string
  pi_repr :: string
  pi_plugin_object :: "plugin_object option"

datatype plugin_call =
  Call_cleanup_ui string
| Call_setup_ui string
| Call_slotSetImageDimensions string nat nat

section \<open>The worker thread\<close>

text \<open>
  A \<open>GenericThread\<close> wraps a function; \<open>th_function\<close> is what calling it with the
  stored arguments does (\<open>None\<close>: it returns, \<open>Some e\<close>: it raises \<open>e\<close>), and
  \<open>th_plugin\<close> names the plugin whose \<open>knit\<close> it is.
\<close>

record generic_thread =
  th_function :: "py_exception option"
  th_plugin :: string

text \<open>
  \<open>GenericThread.run\<close>: the result is \<open>Inr ()\<close> when \<open>run\<close> returns and \<open>Inl e\<close>
  when \<open>e\<close> leaves it. \<open>logging.error(fe)\<close> writes the message of \<open>fe\<close>.
\<close>

definition run :: "generic_thread \<Rightarrow> log_record list \<Rightarrow> (py_exception + unit) \<times> log_record list" where
  "run self lg =
     (case th_function self of
        None \<Rightarrow> (Inr (), lg)
      | Some fe \<Rightarrow>
          if isinstance fe ''FysomError'' then (Inr (), lg @ [(ERROR, exc_msg fe)])
          else (Inl fe, lg))"

section \<open>The scene\<close>

text \<open>
  What \<open>refresh_scene\<close> builds: the pixmap item of the pattern with its position,
  and the rectangle items \<open>(x, y, width, height)\<close> in the order in which they are
  added. Qt creates an item at position \<open>(0, 0)\<close>; \<open>setPos\<close> moves it.
\<close>

record pixmap_item =
  px_pixmap :: image
  px_pos :: "real \<times> real"

record rect_item =
  ri_x :: real
  ri_y :: real
  ri_w :: real
  ri_h :: real
  ri_brush :: "string option"

record scene =
  sc_pattern :: pixmap_item
  sc_items :: "rect_item list"

definition addPixmap :: "image \<Rightarrow> pixmap_item" where
  "addPixmap pixmap = \<lparr>px_pixmap = pixmap, px_pos = (0, 0)\<rparr>"

definition setPos :: "real \<Rightarrow> real \<Rightarrow> pixmap_item \<Rightarrow> pixmap_item" where
  "setPos x y item = item\<lparr>px_pos := (x, y)\<rparr>"

definition QGraphicsRectItem :: "real \<Rightarrow> real \<Rightarrow> real \<Rightarrow> real \<Rightarrow> rect_item" where
  "QGraphicsRectItem x y w h = \<lparr>ri_x = x, ri_y = y, ri_w = w, ri_h = h, ri_brush = None\<rparr>"

definition setBrush :: "string \<Rightarrow> rect_item \<Rightarrow> rect_item" where
  "setBrush colour item = item\<lparr>ri_brush := Some colour\<rparr>"

section \<open>The state of \<open>GuiMain\<close>\<close>

text \<open>
  The attributes of the window that the modelled methods read or write, the enabled
  flags and texts of the widgets they touch (\<open>ui_\<close>), the plugin manager as a lookup
  by name, and the three records of what has happened: the log, the calls made to
  plugins and the threads started.
\<close>

record gui =
  enabled_plugin :: "plugin_info option"
  pil_image :: "image option"
  start_needle :: int
  stop_needle :: int
  imageAlignment :: string
  var_progress :: int
  zoomlevel :: real
  pm :: "string \<Rightarrow> plugin_info option"
  gt :: "generic_thread option"
  ui_menuTools :: bool
  ui_widget_imgload :: bool
  ui_menuImage_Actions :: bool
  ui_widget_optionsdock :: bool
  ui_widget_knitcontrol :: bool
  ui_knit_button :: bool
  ui_cancel_button :: bool
  ui_dimensions_label :: string
  ui_module_dropdown :: string
  ui_scene :: "scene option"
  ui_view_scale :: "real \<times> real"
  logged :: "log_record list"
  plugin_calls :: "plugin_call list"
  started_threads :: "generic_thread list"

definition logging :: "log_level \<Rightarrow> string \<Rightarrow> gui \<Rightarrow> gui" where
  "logging lvl msg g = g\<lparr>logged := logged g @ [(lvl, msg)]\<rparr>"

text \<open>Decimal text of a size, for \<open>"{} - {}".format(width, height)\<close>.\<close>

fun str_nat :: "nat \<Rightarrow> string" where
  "str_nat n = (if n < 10 then [''0123456789'' ! n]
                else str_nat (n div 10) @ [''0123456789'' ! (n mod 10)])"

definition set_dimensions_on_gui :: "nat \<Rightarrow> nat \<Rightarrow> gui \<Rightarrow> gui" where
  "set_dimensions_on_gui width height g =
     g\<lparr>ui_dimensions_label := str_nat width @ '' - '' @ str_nat height\<rparr>"

section \<open>Rendering\<close>

text \<open>
  \<open>refresh_scene\<close>. Reading \<open>self.pil_image.size\<close> raises \<open>AttributeError\<close> when no
  image is loaded. The division \<open>/\<close> is Python 3's true division, so the positions
  are reals. The alignment is compared as a string; any value other than the three
  known ones only writes a warning, and the pattern item keeps the position at which
  \<open>addPixmap\<close> created it in this new scene.
\<close>

definition refresh_scene :: "gui \<Rightarrow> (py_exception + unit) \<times> gui" where
  "refresh_scene g =
     (case pil_image g of
        None \<Rightarrow> (Inl (AttributeError ''NoneType object has no attribute size''), g)
      | Some img \<Rightarrow>
          let pixmap = convert RGBA img;
              pw = im_width pixmap;
              ph = im_height pixmap;
              g1 = set_dimensions_on_gui pw ph g;
              machine_width = (200 :: real);
              bar_height = (5 :: real);
              pattern = addPixmap pixmap;
              (pattern, g2) =
                (if imageAlignment g1 = ''left'' then
                   (setPos (real_of_int (start_needle g1 - 100)) 0 pattern, g1)
                 else if imageAlignment g1 = ''center'' then
                   (setPos (- (real pw / 2)
                            + real_of_int (start_needle g1 + stop_needle g1) / 2 - 100) 0 pattern, g1)
                 else if imageAlignment g1 = ''right'' then
                   (setPos (real_of_int (stop_needle g1 - 100 - int pw)) 0 pattern, g1)
                 else (pattern, logging WARNING ''invalid alignment'' g1));
              rect_orange = setBrush ''orange''
                (QGraphicsRectItem (- (machine_width / 2)) (- bar_height) (machine_width / 2) bar_height);
              rect_green = setBrush ''green''
                (QGraphicsRectItem 0 (- bar_height) (machine_width / 2) bar_height);
              limit_bar_width = (1 / 2 :: real);
              start_line = QGraphicsRectItem (real_of_int (start_needle g2 - 101)) (- bar_height)
                             limit_bar_width (real ph + 2 * bar_height);
              stop_line = QGraphicsRectItem (real_of_int (stop_needle g2 - 100)) (- bar_height)
                            limit_bar_width (real ph + 2 * bar_height);
              progress_line = QGraphicsRectItem (- (machine_width / 2))
                                (real_of_int (int ph - var_progress g2))
                                machine_width limit_bar_width;
              qscene = \<lparr>sc_pattern = pattern,
                        sc_items = [rect_orange, rect_green, start_line, stop_line, progress_line]\<rparr>
          in (Inr (), g2\<lparr>ui_view_scale := (zoomlevel g2, zoomlevel g2), ui_scene := Some qscene\<rparr>))"

definition slotUpdateNeedles :: "int \<Rightarrow> int \<Rightarrow> gui \<Rightarrow> (py_exception + unit) \<times> gui" where
  "slotUpdateNeedles start stop g = refresh_scene (g\<lparr>start_needle := start, stop_needle := stop\<rparr>)"

definition slotUpdateAlignment :: "string \<Rightarrow> gui \<Rightarrow> (py_exception + unit) \<times> gui" where
  "slotUpdateAlignment alignment g = refresh_scene (g\<lparr>imageAlignment := alignment\<rparr>)"

section \<open>Applying a transform\<close>

text \<open>The dictionary of \<open>apply_image_transform\<close>; \<open>dict.get\<close> gives \<open>None\<close> for any other key.\<close>

definition transform_dict ::
  "(nat \<times> nat \<Rightarrow> bool) \<Rightarrow> (image \<Rightarrow> int \<Rightarrow> image) \<Rightarrow>
   string \<Rightarrow> (image \<Rightarrow> int list \<Rightarrow> py_exception + image) option" where
  "transform_dict can_allocate resample =
     [''invert'' \<mapsto> GuiMain__invert_image,
      ''repeat'' \<mapsto> GuiMain__repeat_image can_allocate,
      ''mirror'' \<mapsto> GuiMain__mirror_image,
      ''flip'' \<mapsto> GuiMain__flip_image,
      ''rotate'' \<mapsto> GuiMain__rotate_image resample]"

text \<open>
  The statement \<open>self.enabled_plugin.plugin_object.slotSetImageDimensions(width, height)\<close>:
  an attribute of \<open>None\<close> raises \<open>AttributeError\<close>; otherwise the call is made and
  recorded, and what the plugin raises leaves the statement.
\<close>

definition call_slotSetImageDimensions :: "nat \<Rightarrow> nat \<Rightarrow> gui \<Rightarrow> (py_exception + unit) \<times> gui" where
  "call_slotSetImageDimensions width height g =
     (case enabled_plugin g of
        None \<Rightarrow> (Inl (AttributeError ''NoneType object has no attribute plugin_object''), g)
      | Some p \<Rightarrow>
          (case pi_plugin_object p of
             None \<Rightarrow> (Inl (AttributeError ''NoneType object has no attribute slotSetImageDimensions''), g)
           | Some po \<Rightarrow>
               let g1 = g\<lparr>plugin_calls := plugin_calls g @ [Call_slotSetImageDimensions (pi_name p) width height]\<rparr>
               in (case po_slotSetImageDimensions po width height of
                     Some e \<Rightarrow> (Inl e, g1)
                   | None \<Rightarrow> (Inr (), g1))))"

text \<open>
  The \<open>try\<close> block of \<open>apply_image_transform\<close>: the new image when the transform
  returns one; when it raises (calling \<open>None\<close>, for an unknown key, raises
  \<open>TypeError\<close>), the bare \<open>except\<close> writes an error record and \<open>image\<close> keeps its
  value.
\<close>

definition try_transform ::
  "(image \<Rightarrow> int list \<Rightarrow> py_exception + image) option \<Rightarrow> image \<Rightarrow> int list \<Rightarrow> gui \<Rightarrow> image \<times> gui" where
  "try_transform transform img args g =
     (case (case transform of
              None \<Rightarrow> Inl (TypeError ''NoneType object is not callable'')
            | Some f \<Rightarrow> f img args) of
        Inr img' \<Rightarrow> (img', g)
      | Inl e \<Rightarrow> (img, logging ERROR ''Error on executing transform'' g))"

definition apply_image_transform ::
  "(nat \<times> nat \<Rightarrow> bool) \<Rightarrow> (image \<Rightarrow> int \<Rightarrow> image) \<Rightarrow>
   string \<Rightarrow> int list \<Rightarrow> gui \<Rightarrow> (py_exception + unit) \<times> gui" where
  "apply_image_transform can_allocate resample transform_type args g =
     (let transform = transform_dict can_allocate resample transform_type in
      case pil_image g of
        None \<Rightarrow> (Inr (), g)
      | Some img \<Rightarrow>
          let (img', g1) = try_transform transform img args g;
              g2 = g1\<lparr>pil_image := Some img'\<rparr>;
              g3 = g2\<lparr>ui_widget_knitcontrol := False\<rparr>;
              (width, height) = im_size img'
          in (case call_slotSetImageDimensions width height g3 of
                (Inl e, g4) \<Rightarrow> (Inl e, g4)
              | (Inr u, g4) \<Rightarrow> refresh_scene g4))"

text \<open>
  The public operations. \<open>QInputDialog.getInt\<close> returns the pair of the value and
  whether the dialog was accepted; \<open>repeat_image\<close> takes both pairs as they come back.
\<close>

definition invert_image ::
  "(nat \<times> nat \<Rightarrow> bool) \<Rightarrow> (image \<Rightarrow> int \<Rightarrow> image) \<Rightarrow> gui \<Rightarrow> (py_exception + unit) \<times> gui" where
  "invert_image can_allocate resample g = apply_image_transform can_allocate resample ''invert'' [] g"

definition repeat_image ::
  "(nat \<times> nat \<Rightarrow> bool) \<Rightarrow> (image \<Rightarrow> int \<Rightarrow> image) \<Rightarrow>
   int \<times> bool \<Rightarrow> int \<times> bool \<Rightarrow> gui \<Rightarrow> (py_exception + unit) \<times> gui" where
  "repeat_image can_allocate resample v h g =
     apply_image_transform can_allocate resample ''repeat'' [fst v, fst h] g"

definition mirror_image ::
  "(nat \<times> nat \<Rightarrow> bool) \<Rightarrow> (image \<Rightarrow> int \<Rightarrow> image) \<Rightarrow> gui \<Rightarrow> (py_exception + unit) \<times> gui" where
  "mirror_image can_allocate resample g = apply_image_transform can_allocate resample ''mirror'' [] g"

definition flip_image ::
  "(nat \<times> nat \<Rightarrow> bool) \<Rightarrow> (image \<Rightarrow> int \<Rightarrow> image) \<Rightarrow> gui \<Rightarrow> (py_exception + unit) \<times> gui" where
  "flip_image can_allocate resample g = apply_image_transform can_allocate resample ''flip'' [] g"

definition rotate_left ::
  "(nat \<times> nat \<Rightarrow> bool) \<Rightarrow> (image \<Rightarrow> int \<Rightarrow> image) \<Rightarrow> gui \<Rightarrow> (py_exception + unit) \<times> gui" where
  "rotate_left can_allocate resample g = apply_image_transform can_allocate resample ''rotate'' [90] g"

definition rotate_right ::
  "(nat \<times> nat \<Rightarrow> bool) \<Rightarrow> (image \<Rightarrow> int \<Rightarrow> image) \<Rightarrow> gui \<Rightarrow> (py_exception + unit) \<times> gui" where
  "rotate_right can_allocate resample g = apply_image_transform can_allocate resample ''rotate'' [- 90] g"

section \<open>Switching the enabled plugin\<close>

text \<open>
  The first \<open>try\<close> block of \<open>set_enabled_plugin\<close>: when a plugin is enabled, its
  \<open>cleanup_ui\<close> is called; whatever is raised there (also the \<open>AttributeError\<close> of a
  missing plugin object) is dropped by \<open>except: pass\<close>.
\<close>

definition try_cleanup_ui :: "gui \<Rightarrow> gui" where
  "try_cleanup_ui g =
     (case enabled_plugin g of
        None \<Rightarrow> g
      | Some p \<Rightarrow>
          (case pi_plugin_object p of
             None \<Rightarrow> g
           | Some po \<Rightarrow> g\<lparr>plugin_calls := plugin_calls g @ [Call_cleanup_ui (pi_name p)]\<rparr>))"

text \<open>
  The second \<open>try\<close> block: \<open>setup_ui\<close> of the plugin that is now enabled, then an
  info record; any exception writes \<open>no plugin object loaded\<close> instead.
\<close>

definition try_setup_ui :: "string \<Rightarrow> gui \<Rightarrow> gui" where
  "try_setup_ui plugin_name g =
     (case enabled_plugin g of
        None \<Rightarrow> logging INFO ''no plugin object loaded'' g
      | Some q \<Rightarrow>
          (case pi_plugin_object q of
             None \<Rightarrow> logging INFO ''no plugin object loaded'' g
           | Some qo \<Rightarrow>
               let g1 = g\<lparr>plugin_calls := plugin_calls g @ [Call_setup_ui (pi_name q)]\<rparr>
               in (case po_setup_ui qo of
                     Some e \<Rightarrow> logging INFO ''no plugin object loaded'' g1
                   | None \<Rightarrow>
                       logging INFO (''Set enabled_plugin as '' @ pi_repr q @ '' - '' @ plugin_name) g1)))"

text \<open>
  \<open>set_enabled_plugin\<close>; the argument is \<open>None\<close> or a name, and an empty name is
  as false as \<open>None\<close>. The result is the plugin found, or \<open>None\<close>.
\<close>

definition set_enabled_plugin :: "string option \<Rightarrow> gui \<Rightarrow> plugin_info option \<times> gui" where
  "set_enabled_plugin plugin_name g =
     (let g1 = try_cleanup_ui g;
          name = (case plugin_name of
                    None \<Rightarrow> ui_module_dropdown g1
                  | Some n \<Rightarrow> if n = [] then ui_module_dropdown g1 else n);
          plugin_o = pm g1 name;
          g2 = g1\<lparr>enabled_plugin := plugin_o\<rparr>
      in (plugin_o, try_setup_ui name g2))"

section \<open>Starting to knit\<close>

text \<open>
  \<open>start_knitting_process\<close>: six widgets are switched, then a \<open>GenericThread\<close>
  around the enabled plugin's \<open>knit\<close> is created, stored in \<open>self.gt\<close> and started.
  The method tests nothing before it does so.
\<close>

definition start_knitting_process :: "gui \<Rightarrow> (py_exception + unit) \<times> gui" where
  "start_knitting_process g =
     (let g1 = g\<lparr>ui_menuTools := False, ui_widget_imgload := False,
                  ui_menuImage_Actions := False, ui_widget_optionsdock := False,
                  ui_knit_button := False, ui_cancel_button := True\<rparr>
      in case enabled_plugin g1 of
           None \<Rightarrow> (Inl (AttributeError ''NoneType object has no attribute plugin_object''), g1)
         | Some p \<Rightarrow>
             (case pi_plugin_object p of
                None \<Rightarrow> (Inl (AttributeError ''NoneType object has no attribute knit''), g1)
              | Some po \<Rightarrow>
                  let t = \<lparr>th_function = po_knit po, th_plugin = pi_name p\<rparr>
                  in (Inr (), g1\<lparr>gt := Some t, started_threads := started_threads g1 @ [t]\<rparr>)))"

section \<open>What a render shows\<close>

text \<open>The position of the pattern item in the scene on display, if there is one.\<close>

definition pattern_pos :: "gui \<Rightarrow> (real \<times> real) option" where
  "pattern_pos g = map_option (\<lambda>sc. px_pos (sc_pattern sc)) (ui_scene g)"

text \<open>The rectangle items of the scene on display, as \<open>(x, y, width, height)\<close>.\<close>

definition scene_rects :: "gui \<Rightarrow> (real \<times> real \<times> real \<times> real) list" where
  "scene_rects g =
     (case ui_scene g of
        None \<Rightarrow> []
      | Some sc \<Rightarrow> map (\<lambda>r. (ri_x r, ri_y r, ri_w r, ri_h r)) (sc_items sc))"

section \<open>A concrete window\<close>

text \<open>
  Two plugins, one whose teardown raises and whose \<open>knit\<close> raises \<open>FysomError\<close>,
  and a window as \<open>__init__\<close> leaves its attributes (needles 80 and 119, centred,
  no progress, zoom 3) with a 40 by 2 \<open>RGBA\<close> pattern loaded.
\<close>

definition quiet_object :: plugin_object where
  "quiet_object = \<lparr>po_setup_ui = None, po_cleanup_ui = None,
     po_slotSetImageDimensions = (\<lambda>w h. None), po_knit = None\<rparr>"

definition failing_object :: plugin_object where
  "failing_object = \<lparr>po_setup_ui = None, po_cleanup_ui = Some (ValueError ''teardown failed''),
     po_slotSetImageDimensions = (\<lambda>w h. None),
     po_knit = Some (FysomError ''event start inappropriate'')\<rparr>"

definition ayab_plugin :: plugin_info where
  "ayab_plugin = \<lparr>pi_name = ''AYAB'', pi_repr = ''PluginInfo AYAB'',
     pi_plugin_object = Some failing_object\<rparr>"

definition dummy_plugin :: plugin_info where
  "dummy_plugin = \<lparr>pi_name = ''Dummy'', pi_repr = ''PluginInfo Dummy'',
     pi_plugin_object = Some quiet_object\<rparr>"

definition example_image :: image where
  "example_image = \<lparr>im_mode = RGBA, im_size = (40, 2), im_px = (\<lambda>x y. [1, 2, 3, 4])\<rparr>"

definition example_gui :: gui where
  "example_gui = \<lparr>enabled_plugin = Some ayab_plugin, pil_image = Some example_image,
     start_needle = 80, stop_needle = 119, imageAlignment = ''center'', var_progress = 0,
     zoomlevel = 3, pm = [''AYAB'' \<mapsto> ayab_plugin, ''Dummy'' \<mapsto> dummy_plugin], gt = None,
     ui_menuTools = True, ui_widget_imgload = True, ui_menuImage_Actions = True,
     ui_widget_optionsdock = True, ui_widget_knitcontrol = True, ui_knit_button = True,
     ui_cancel_button = False, ui_dimensions_label = [], ui_module_dropdown = ''AYAB'',
     ui_scene = None, ui_view_scale = (1, 1), logged = [], plugin_calls = [],
     started_threads = []\<rparr>"



text \<open>The same window after a render in mode \<open>left\<close>, and after a first start.\<close>

definition left_rendered_gui :: gui where
  "left_rendered_gui = snd (refresh_scene (example_gui\<lparr>imageAlignment := ''left''\<rparr>))"

definition knitting_gui :: gui where
  "knitting_gui = snd (start_knitting_process example_gui)"

text \<open>A stand-in for PIL's resampling, which no quarter turn reaches.\<close>

definition no_resample :: "image \<Rightarrow> int \<Rightarrow> image" where
  "no_resample im angle = im"

text \<open>A machine on which every canvas that passes the size checks can be allocated.\<close>

definition any_canvas :: "nat \<times> nat \<Rightarrow> bool" where
  "any_canvas sz = True"


text \<open>The pixel at \<open>(x, y)\<close> of the image that a transform returned, if it returned one.\<close>

definition px_at :: "py_exception + image \<Rightarrow> nat \<Rightarrow> nat \<Rightarrow> pixel option" where
  "px_at res x y = (case res of Inl e \<Rightarrow> None | Inr r \<Rightarrow> Some (im_px r x y))"

text \<open>An \<open>RGBA\<close> pattern of one pixel that is not opaque.\<close>

definition one_pixel :: image where
  "one_pixel = \<lparr>im_mode = RGBA, im_size = (1, 1), im_px = (\<lambda>x y. [10, 20, 30, 40])\<rparr>"

text \<open>
  The two loops of \<open>__repeat_image\<close> as one fold over the rows, once the inner
  \<open>range\<close> is known to succeed; used to reason about \<open>paste_rows\<close>.
\<close>

definition paste_grid :: "image \<Rightarrow> nat list \<Rightarrow> nat list \<Rightarrow> image \<Rightarrow> image" where
  "paste_grid src ws hs c = fold (\<lambda>h im. paste_row src h ws im) hs c"

section \<open>Alignment of the pattern\<close>

text \<open>
  Claim C1. With a pattern of width \<open>w\<close> loaded and the needle range \<open>[start, stop]\<close>,
  a render places the left edge of the pattern at \<open>start - 100\<close> in mode \<open>left\<close>, at
  \<open>- w / 2 + (start + stop) / 2 - 100\<close> (real division) in mode \<open>center\<close>, and at
  \<open>stop - 100 - w\<close> in mode \<open>right\<close>, always at height 0. For \<open>start = 80\<close>,
  \<open>stop = 119\<close> and \<open>w = 40\<close> these are \<open>-20\<close>, \<open>-20.5\<close> and \<open>-21\<close>: see the
  instance that follows the theorem.
\<close>

theorem refresh_scene_alignment:
  assumes "pil_image g = Some img"
  shows "(imageAlignment g = ''left'' \<longrightarrow>
            pattern_pos (snd (refresh_scene g)) = Some (real_of_int (start_needle g) - 100, 0)) \<and>
         (imageAlignment g = ''center'' \<longrightarrow>
            pattern_pos (snd (refresh_scene g)) =
              Some (- (real (im_width img) / 2)
                    + (real_of_int (start_needle g) + real_of_int (stop_needle g)) / 2 - 100, 0)) \<and>
         (imageAlignment g = ''right'' \<longrightarrow>
            pattern_pos (snd (refresh_scene g)) =
              Some (real_of_int (stop_needle g) - 100 - real (im_width img), 0))"
  using assms
  by (simp add: refresh_scene_def pattern_pos_def Let_def setPos_def addPixmap_def
      set_dimensions_on_gui_def convert_def im_width_def)

theorem refresh_scene_alignment_witness:
  "pattern_pos (snd (refresh_scene (example_gui\<lparr>imageAlignment := ''left''\<rparr>))) = Some (- 20, 0) \<and>
   pattern_pos (snd (refresh_scene (example_gui\<lparr>imageAlignment := ''center''\<rparr>))) = Some (- 41 / 2, 0) \<and>
   pattern_pos (snd (refresh_scene (example_gui\<lparr>imageAlignment := ''right''\<rparr>))) = Some (- 21, 0)"
  using refresh_scene_alignment [of "example_gui\<lparr>imageAlignment := ''left''\<rparr>" example_image]
        refresh_scene_alignment [of "example_gui\<lparr>imageAlignment := ''center''\<rparr>" example_image]
        refresh_scene_alignment [of "example_gui\<lparr>imageAlignment := ''right''\<rparr>" example_image]
  by (simp add: example_gui_def example_image_def im_width_def)

section \<open>Exceptions in the worker\<close>

text \<open>
  Claim C4. When the function of the worker raises \<open>e\<close>, \<open>run\<close> returns normally,
  having written \<open>e\<close> to the log as an error, if \<open>e\<close> is an instance of
  \<open>FysomError\<close>; otherwise \<open>e\<close> leaves \<open>run\<close> and nothing is logged. So \<open>run\<close>
  returns exactly when the exception is of the \<open>FysomError\<close> kind.
\<close>

theorem run_absorbs_only_FysomError:
  "th_function t = Some e \<Longrightarrow>
     (isinstance e ''FysomError'' \<longrightarrow> run t lg = (Inr (), lg @ [(ERROR, exc_msg e)])) \<and>
     (\<not> isinstance e ''FysomError'' \<longrightarrow> run t lg = (Inl e, lg)) \<and>
     (fst (run t lg) = Inr () \<longleftrightarrow> isinstance e ''FysomError'')"
  by (simp add: run_def)

theorem run_absorbs_only_FysomError_witness:
  "run \<lparr>th_function = Some (FysomError ''event start inappropriate''), th_plugin = ''AYAB''\<rparr> []
     = (Inr (), [(ERROR, ''event start inappropriate'')]) \<and>
   run \<lparr>th_function = Some (ValueError ''port closed''), th_plugin = ''AYAB''\<rparr> []
     = (Inl (ValueError ''port closed''), [])"
  using run_absorbs_only_FysomError
          [of "\<lparr>th_function = Some (FysomError ''event start inappropriate''), th_plugin = ''AYAB''\<rparr>"
              "FysomError ''event start inappropriate''" "[]"]
        run_absorbs_only_FysomError
          [of "\<lparr>th_function = Some (ValueError ''port closed''), th_plugin = ''AYAB''\<rparr>"
              "ValueError ''port closed''" "[]"]
  by (simp add: isinstance_def FysomError_def ValueError_def builtin_error_def)

section \<open>The needle limit lines\<close>

text \<open>
  Claim C7, as the source has it. With a pattern of height \<open>H\<close> loaded, a render
  draws the limit line of the start needle at \<open>x = start - 101\<close> and that of the
  stop needle at \<open>x = stop - 100\<close>; each is half a unit wide, starts at
  \<open>y = - bar_height = -5\<close> and is \<open>H + 2 * bar_height\<close> high. They are the third and
  fourth rectangle of the scene.
\<close>

theorem limit_lines:
  assumes "pil_image g = Some img"
  shows "scene_rects (snd (refresh_scene g)) ! 2 =
           (real_of_int (start_needle g) - 101, - 5, 1 / 2, real (im_height img) + 2 * 5) \<and>
         scene_rects (snd (refresh_scene g)) ! 3 =
           (real_of_int (stop_needle g) - 100, - 5, 1 / 2, real (im_height img) + 2 * 5)"
  using assms
  by (simp add: refresh_scene_def scene_rects_def Let_def QGraphicsRectItem_def setBrush_def
      set_dimensions_on_gui_def convert_def im_height_def logging_def split: prod.splits)

theorem limit_lines_witness:
  "scene_rects (snd (refresh_scene example_gui)) ! 2 = (- 21, - 5, 1 / 2, 12) \<and>
   scene_rects (snd (refresh_scene example_gui)) ! 3 = (19, - 5, 1 / 2, 12)"
  using limit_lines [of example_gui example_image]
  by (simp add: example_gui_def example_image_def im_height_def)

text \<open>
  With the start needle at 80 the start line is at \<open>-21\<close>, not at
  \<open>80 - 100 = -20\<close> as the claim has it.
\<close>

theorem limit_lines_counterexample:
  "fst (scene_rects (snd (refresh_scene example_gui)) ! 2) = - 21 \<and>
   fst (scene_rects (snd (refresh_scene example_gui)) ! 2)
     \<noteq> real_of_int (start_needle example_gui) - 100"
  by (simp add: refresh_scene_def scene_rects_def example_gui_def example_image_def Let_def
      QGraphicsRectItem_def setBrush_def set_dimensions_on_gui_def convert_def im_width_def
      im_height_def addPixmap_def setPos_def)

section \<open>An unknown alignment\<close>

text \<open>
  Claim C6, as the source has it. With a pattern loaded and an alignment that is
  none of \<open>left\<close>, \<open>center\<close> and \<open>right\<close>, a render raises nothing, writes the
  warning \<open>invalid alignment\<close>, and shows a scene with the two halves of the machine,
  the two limit lines and the progress line, in which the pattern is at the origin,
  where Qt creates an item: each render builds a new scene, so the position of the
  pattern in the scene before plays no part.
\<close>

theorem invalid_alignment:
  assumes "pil_image g = Some img"
    and "imageAlignment g \<noteq> ''left''" and "imageAlignment g \<noteq> ''center''"
    and "imageAlignment g \<noteq> ''right''"
  shows "fst (refresh_scene g) = Inr () \<and>
         logged (snd (refresh_scene g)) = logged g @ [(WARNING, ''invalid alignment'')] \<and>
         pattern_pos (snd (refresh_scene g)) = Some (0, 0) \<and>
         scene_rects (snd (refresh_scene g)) =
           [(- 100, - 5, 100, 5), (0, - 5, 100, 5),
            (real_of_int (start_needle g) - 101, - 5, 1 / 2, real (im_height img) + 2 * 5),
            (real_of_int (stop_needle g) - 100, - 5, 1 / 2, real (im_height img) + 2 * 5),
            (- 100, real (im_height img) - real_of_int (var_progress g), 200, 1 / 2)]"
  using assms
  by (simp add: refresh_scene_def scene_rects_def pattern_pos_def Let_def QGraphicsRectItem_def
      setBrush_def set_dimensions_on_gui_def convert_def im_height_def logging_def addPixmap_def)

theorem invalid_alignment_witness:
  "fst (refresh_scene (left_rendered_gui\<lparr>imageAlignment := ''diagonal''\<rparr>)) = Inr () \<and>
   logged (snd (refresh_scene (left_rendered_gui\<lparr>imageAlignment := ''diagonal''\<rparr>)))
     = [(WARNING, ''invalid alignment'')] \<and>
   pattern_pos (snd (refresh_scene (left_rendered_gui\<lparr>imageAlignment := ''diagonal''\<rparr>))) = Some (0, 0) \<and>
   scene_rects (snd (refresh_scene (left_rendered_gui\<lparr>imageAlignment := ''diagonal''\<rparr>))) =
     [(- 100, - 5, 100, 5), (0, - 5, 100, 5), (- 21, - 5, 1 / 2, 12), (19, - 5, 1 / 2, 12),
      (- 100, 2, 200, 1 / 2)]"
proof -
  have img: "pil_image (left_rendered_gui\<lparr>imageAlignment := ''diagonal''\<rparr>) = Some example_image"
    by (simp add: left_rendered_gui_def refresh_scene_def example_gui_def Let_def
        set_dimensions_on_gui_def)
  have st: "start_needle left_rendered_gui = 80" "stop_needle left_rendered_gui = 119"
    "var_progress left_rendered_gui = 0" "logged left_rendered_gui = []"
    by (simp_all add: left_rendered_gui_def refresh_scene_def example_gui_def Let_def
        set_dimensions_on_gui_def)
  show ?thesis
    using invalid_alignment [OF img] st
    by (simp add: example_image_def im_height_def)
qed

text \<open>
  After a render in mode \<open>left\<close> the pattern is at \<open>x = -20\<close>. Setting the
  alignment to \<open>diagonal\<close> then returns without an error and leaves the pattern at
  \<open>x = 0\<close>, not at its previous position.
\<close>

theorem invalid_alignment_counterexample:
  "pattern_pos left_rendered_gui = Some (- 20, 0) \<and>
   fst (slotUpdateAlignment ''diagonal'' left_rendered_gui) = Inr () \<and>
   pattern_pos (snd (slotUpdateAlignment ''diagonal'' left_rendered_gui)) = Some (0, 0)"
  by (simp add: left_rendered_gui_def slotUpdateAlignment_def refresh_scene_def pattern_pos_def
      example_gui_def example_image_def Let_def set_dimensions_on_gui_def convert_def im_width_def
      im_height_def addPixmap_def setPos_def logging_def)

section \<open>Transforms without a pattern\<close>

text \<open>
  Claim C10. When no image is loaded, \<open>apply_image_transform\<close> returns normally and
  leaves the whole state as it was, for every key and every argument tuple: the
  image is still \<open>None\<close>, no plugin call is recorded, no scene is built, no widget and
  no log record changes. The same holds for each of the six public operations.
\<close>

theorem no_image_no_transform:
  assumes "pil_image g = None"
  shows "apply_image_transform can_allocate resample transform_type args g = (Inr (), g) \<and>
         invert_image can_allocate resample g = (Inr (), g) \<and>
         repeat_image can_allocate resample v h g = (Inr (), g) \<and>
         mirror_image can_allocate resample g = (Inr (), g) \<and>
         flip_image can_allocate resample g = (Inr (), g) \<and>
         rotate_left can_allocate resample g = (Inr (), g) \<and>
         rotate_right can_allocate resample g = (Inr (), g)"
  using assms
  by (simp add: apply_image_transform_def invert_image_def repeat_image_def mirror_image_def
      flip_image_def rotate_left_def rotate_right_def)

theorem no_image_no_transform_witness:
  "apply_image_transform any_canvas no_resample ''repeat'' [2, 3] (example_gui\<lparr>pil_image := None\<rparr>)
     = (Inr (), example_gui\<lparr>pil_image := None\<rparr>) \<and>
   rotate_left any_canvas no_resample (example_gui\<lparr>pil_image := None\<rparr>)
     = (Inr (), example_gui\<lparr>pil_image := None\<rparr>)"
  using no_image_no_transform [of "example_gui\<lparr>pil_image := None\<rparr>" any_canvas no_resample "''repeat''" "[2, 3]"]
  by simp

section \<open>A transform that raises\<close>







section \<open>Teardown before setup\<close>

text \<open>
  Claim C9. When a plugin \<open>p\<close> is enabled and another plugin \<open>q\<close> is selected by
  name, \<open>set_enabled_plugin\<close> calls \<open>cleanup_ui\<close> of \<open>p\<close> and then \<open>setup_ui\<close> of
  \<open>q\<close>, in this order and nothing between, and \<open>q\<close> is the enabled plugin afterwards
  and the result. This holds whatever \<open>cleanup_ui\<close> does, so also when it raises.
\<close>

theorem teardown_before_setup:
  assumes "enabled_plugin g = Some p" and "pi_plugin_object p = Some po"
    and "n \<noteq> []" and "pm g n = Some q" and "pi_plugin_object q = Some qo"
  shows "fst (set_enabled_plugin (Some n) g) = Some q \<and>
         enabled_plugin (snd (set_enabled_plugin (Some n) g)) = Some q \<and>
         plugin_calls (snd (set_enabled_plugin (Some n) g)) =
           plugin_calls g @ [Call_cleanup_ui (pi_name p), Call_setup_ui (pi_name q)]"
  using assms
  by (simp add: set_enabled_plugin_def try_cleanup_ui_def try_setup_ui_def Let_def logging_def
      split: option.splits)

theorem teardown_before_setup_witness:
  "po_cleanup_ui failing_object \<noteq> None \<and>
   enabled_plugin (snd (set_enabled_plugin (Some ''Dummy'') example_gui)) = Some dummy_plugin \<and>
   plugin_calls (snd (set_enabled_plugin (Some ''Dummy'') example_gui)) =
     [Call_cleanup_ui ''AYAB'', Call_setup_ui ''Dummy'']"
  using teardown_before_setup [of example_gui ayab_plugin failing_object "''Dummy''" dummy_plugin quiet_object]
  by (simp add: example_gui_def ayab_plugin_def dummy_plugin_def failing_object_def)

section \<open>Starting twice\<close>

text \<open>
  Claim C2, as the source has it. \<open>start_knitting_process\<close> tests no state: with a
  plugin enabled, every call returns normally, disables the tools menu, the image
  loader, the image actions, the options and the knit button, enables the cancel
  button, and creates and starts a new thread around \<open>knit\<close> of the enabled plugin,
  whether or not a thread was started before. What keeps the user from a second
  start is the disabled knit button.
\<close>

theorem start_always_launches:
  assumes "enabled_plugin g = Some p" and "pi_plugin_object p = Some po"
  shows "start_knitting_process g =
           (Inr (), g\<lparr>ui_menuTools := False, ui_widget_imgload := False,
                      ui_menuImage_Actions := False, ui_widget_optionsdock := False,
                      ui_knit_button := False, ui_cancel_button := True,
                      gt := Some \<lparr>th_function = po_knit po, th_plugin = pi_name p\<rparr>,
                      started_threads := started_threads g @
                        [\<lparr>th_function = po_knit po, th_plugin = pi_name p\<rparr>]\<rparr>)"
  using assms by (simp add: start_knitting_process_def Let_def)

theorem start_always_launches_witness:
  "gt knitting_gui \<noteq> None \<and>
   fst (start_knitting_process knitting_gui) = Inr () \<and>
   length (started_threads (snd (start_knitting_process knitting_gui))) = 2 \<and>
   ui_knit_button (snd (start_knitting_process knitting_gui)) = False"
proof -
  have k: "knitting_gui = example_gui\<lparr>ui_menuTools := False, ui_widget_imgload := False,
                      ui_menuImage_Actions := False, ui_widget_optionsdock := False,
                      ui_knit_button := False, ui_cancel_button := True,
                      gt := Some \<lparr>th_function = po_knit failing_object, th_plugin = ''AYAB''\<rparr>,
                      started_threads := [\<lparr>th_function = po_knit failing_object, th_plugin = ''AYAB''\<rparr>]\<rparr>"
    by (simp add: knitting_gui_def start_knitting_process_def Let_def example_gui_def ayab_plugin_def)
  have e: "enabled_plugin knitting_gui = Some ayab_plugin"
    by (simp add: k example_gui_def)
  have o: "pi_plugin_object ayab_plugin = Some failing_object"
    by (simp add: ayab_plugin_def)
  show ?thesis
    using start_always_launches [OF e o] by (simp add: k)
qed

text \<open>
  In a window in which knitting has been started, a second call returns normally
  and a second thread has been started; no error is raised.
\<close>

theorem second_start_counterexample:
  "gt knitting_gui \<noteq> None \<and>
   length (started_threads knitting_gui) = 1 \<and>
   fst (start_knitting_process knitting_gui) = Inr () \<and>
   length (started_threads (snd (start_knitting_process knitting_gui))) = 2"
  by (simp add: knitting_gui_def start_knitting_process_def Let_def example_gui_def ayab_plugin_def)

section \<open>Inverting the colours\<close>

text \<open>
  Claim C8. On an \<open>RGBA\<close> image \<open>__invert_image\<close> returns an \<open>RGB\<close> image of the
  same size in which each of the three colour bands is \<open>255\<close> minus the band of the
  input; the alpha band is gone. On an image without alpha every band is inverted,
  mode and size kept. The result is a new value; the input is as it was.
\<close>

theorem invert_drops_alpha:
  "(im_mode img = RGBA \<longrightarrow>
      GuiMain__invert_image img args =
        Inr \<lparr>im_mode = RGB, im_size = im_size img,
             im_px = (\<lambda>x y. [255 - im_px img x y ! 0, 255 - im_px img x y ! 1,
                              255 - im_px img x y ! 2])\<rparr>) \<and>
   (im_mode img \<noteq> RGBA \<longrightarrow>
      GuiMain__invert_image img args =
        Inr (img\<lparr>im_px := (\<lambda>x y. map (\<lambda>c. 255 - c) (im_px img x y))\<rparr>))"
proof -
  have u: "[0 ..< 4] = [0, 1, 2, 3::nat]" by (simp add: upt_rec)
  show ?thesis
    by (cases "im_mode img")
      (simp_all add: GuiMain__invert_image_def split_def merge_def ImageOps_invert_def u)
qed

theorem invert_drops_alpha_witness:
  "GuiMain__invert_image example_image [] =
     Inr \<lparr>im_mode = RGB, im_size = (40, 2), im_px = (\<lambda>x y. [254, 253, 252])\<rparr> \<and>
   GuiMain__invert_image \<lparr>im_mode = RGB, im_size = (1, 1), im_px = (\<lambda>x y. [0, 16, 255])\<rparr> [] =
     Inr \<lparr>im_mode = RGB, im_size = (1, 1), im_px = (\<lambda>x y. [255, 239, 0])\<rparr>"
  using invert_drops_alpha [of example_image "[]"]
    invert_drops_alpha [of "\<lparr>im_mode = RGB, im_size = (1, 1), im_px = (\<lambda>x y. [0, 16, 255])\<rparr>" "[]"]
  by (simp add: example_image_def)

section \<open>Tiling\<close>

text \<open>The ranges of the two loops, and what one paste and one row of pastes change.\<close>

lemma py_range_tiles: "0 < w \<Longrightarrow> py_range (w * n) w = Inr (map (\<lambda>k. k * w) [0 ..< n])"
proof -
  assume w: "0 < w"
  have "w * n + w - 1 = w - 1 + n * w" using w by (cases w) simp_all
  moreover have "(w - 1 + n * w) div w = n + (w - 1) div w"
    using w by (simp only: div_mult_self1)
  moreover have "(w - 1) div w = 0" using w by simp
  ultimately have "(w * n + w - 1) div w = n" by simp
  with w show ?thesis by (simp add: py_range_def)
qed

lemma paste_frame [simp]:
  "im_mode (paste dst src b) = im_mode dst"
  "im_size (paste dst src b) = im_size dst"
  "im_width (paste dst src b) = im_width dst"
  "im_height (paste dst src b) = im_height dst"
  by (simp_all add: paste_def im_width_def im_height_def)

lemma paste_row_snoc: "paste_row src h0 (ws @ [b]) c = paste (paste_row src h0 ws c) src (b, h0)"
  by (simp add: paste_row_def)

lemma paste_row_frame [simp]:
  "im_mode (paste_row src h0 ws c) = im_mode c"
  "im_size (paste_row src h0 ws c) = im_size c"
  "im_width (paste_row src h0 ws c) = im_width c"
  "im_height (paste_row src h0 ws c) = im_height c"
  by (induction ws rule: rev_induct) (simp_all add: paste_row_snoc, simp_all add: paste_row_def)

lemma mod_in_tile: "n * w \<le> X \<Longrightarrow> X < n * w + w \<Longrightarrow> X mod w = X - n * (w::nat)"
  by (metis add.commute le_add_diff_inverse2 less_diff_conv2 mod_less mod_mult_self1)

lemma paste_row_px:
  assumes "0 < im_width src"
  shows "im_px (paste_row src h0 (map (\<lambda>k. k * im_width src) [0 ..< n]) c) X Y =
           (if X < n * im_width src \<and> X < im_width c \<and>
               h0 \<le> Y \<and> Y < h0 + im_height src \<and> Y < im_height c
            then convert_pixel (im_mode src) (im_mode c) (im_px src (X mod im_width src) (Y - h0))
            else im_px c X Y)"
proof (induction n)
  case 0
  show ?case by (simp add: paste_row_def)
next
  case (Suc n)
  have "im_px (paste_row src h0 (map (\<lambda>k. k * im_width src) [0 ..< Suc n]) c) X Y =
        im_px (paste (paste_row src h0 (map (\<lambda>k. k * im_width src) [0 ..< n]) c) src
                 (n * im_width src, h0)) X Y"
    by (simp add: paste_row_snoc)
  also have "\<dots> = (if X < Suc n * im_width src \<and> X < im_width c \<and>
               h0 \<le> Y \<and> Y < h0 + im_height src \<and> Y < im_height c
            then convert_pixel (im_mode src) (im_mode c) (im_px src (X mod im_width src) (Y - h0))
            else im_px c X Y)"
    using Suc.IH mod_in_tile [of n "im_width src" X]
    by (auto simp: paste_def)
  finally show ?case .
qed

lemma paste_rows_fold:
  "py_range new_w (im_width src) = Inr ws \<Longrightarrow>
   paste_rows src new_w hs c = Inr (paste_grid src ws hs c)"
  by (induction hs arbitrary: c) (simp_all add: paste_grid_def)

lemma paste_grid_frame [simp]:
  "im_mode (paste_grid src ws hs c) = im_mode c"
  "im_size (paste_grid src ws hs c) = im_size c"
  "im_width (paste_grid src ws hs c) = im_width c"
  "im_height (paste_grid src ws hs c) = im_height c"
  by (induction hs arbitrary: c) (simp_all add: paste_grid_def)

lemma paste_grid_px:
  assumes "0 < im_width src" and "0 < im_height src"
  shows "im_px (paste_grid src (map (\<lambda>k. k * im_width src) [0 ..< n])
                  (map (\<lambda>k. k * im_height src) [0 ..< m]) c) X Y =
           (if X < n * im_width src \<and> X < im_width c \<and>
               Y < m * im_height src \<and> Y < im_height c
            then convert_pixel (im_mode src) (im_mode c)
                   (im_px src (X mod im_width src) (Y mod im_height src))
            else im_px c X Y)"
proof (induction m)
  case 0
  show ?case by (simp add: paste_grid_def)
next
  case (Suc m)
  let ?ws = "map (\<lambda>k. k * im_width src) [0 ..< n]"
  have "paste_grid src ?ws (map (\<lambda>k. k * im_height src) [0 ..< Suc m]) c =
        paste_row src (m * im_height src) ?ws
          (paste_grid src ?ws (map (\<lambda>k. k * im_height src) [0 ..< m]) c)"
    by (simp add: paste_grid_def)
  then show ?case
    using Suc.IH mod_in_tile [of m "im_height src" Y] assms
    by (auto simp: paste_row_px)
qed

text \<open>
  Claim C5, as the source has it. Take a pattern \<open>p\<close> of size \<open>(w, h)\<close> with
  \<open>w, h > 0\<close> and counts \<open>v \<ge> 1\<close> (vertical) and \<open>hc \<ge> 1\<close> (horizontal).
  When both sides \<open>w * hc\<close> and \<open>h * v\<close> of the result fit a C \<open>int\<close> and PIL
  can allocate the canvas, \<open>__repeat_image\<close> returns a new image of mode \<open>RGB\<close>
  and size \<open>(w * hc, h * v)\<close>. Every pixel of it is covered by exactly one tile:
  the pixel at \<open>(X, Y)\<close> is the pixel of \<open>p\<close> at \<open>(X mod w, Y mod h)\<close> converted
  to \<open>RGB\<close>, so the tile at \<open>(i, j)\<close>, for \<open>i < hc\<close> and \<open>j < v\<close>, is \<open>p\<close>
  converted to \<open>RGB\<close>: its colour bands as they are, its alpha band, if it has one,
  dropped. For an \<open>RGB\<close> pattern the tile is the content of \<open>p\<close> itself.
  Otherwise \<open>Image.new\<close> raises and \<open>__repeat_image\<close> returns no image.
\<close>

theorem repeat_tiles:
  assumes "im_size p = (w, h)" and "0 < w" and "0 < h" and "1 \<le> v" and "1 \<le> hc"
  shows "(int w * hc \<le> INT_MAX \<and> int h * v \<le> INT_MAX \<and> can_allocate (w * nat hc, h * nat v) \<longrightarrow>
           (\<exists>r. GuiMain__repeat_image can_allocate p [v, hc] = Inr r \<and>
             im_mode r = RGB \<and>
             im_size r = (w * nat hc, h * nat v) \<and>
             (\<forall>X < w * nat hc. \<forall>Y < h * nat v.
                im_px r X Y = convert_pixel (im_mode p) RGB (im_px p (X mod w) (Y mod h))) \<and>
             (\<forall>i < nat hc. \<forall>j < nat v. \<forall>x < w. \<forall>y < h.
                im_px r (i * w + x) (j * h + y) = convert_pixel (im_mode p) RGB (im_px p x y)) \<and>
             (im_mode p = RGB \<longrightarrow>
                (\<forall>i < nat hc. \<forall>j < nat v. \<forall>x < w. \<forall>y < h.
                   im_px r (i * w + x) (j * h + y) = im_px p x y)))) \<and>
         (\<not> (int w * hc \<le> INT_MAX \<and> int h * v \<le> INT_MAX \<and> can_allocate (w * nat hc, h * nat v)) \<longrightarrow>
           isl (GuiMain__repeat_image can_allocate p [v, hc]))"
proof (intro conjI impI)
  have wd: "im_width p = w" "im_height p = h"
    using assms(1) by (simp_all add: im_width_def im_height_def)
  have nw: "nat (int w * hc) = w * nat hc" "nat (int h * v) = h * nat v"
    using assms(4,5) by (simp_all add: nat_mult_distrib)
  have nonneg: "\<not> int w * hc < 0" "\<not> int h * v < 0"
    using assms(4,5) by (simp_all add: not_less)
  {
    assume unfit: "\<not> (int w * hc \<le> INT_MAX \<and> int h * v \<le> INT_MAX \<and>
                       can_allocate (w * nat hc, h * nat v))"
    have "isl (Image_new can_allocate RGB (int w * hc, int h * v))"
      using unfit nonneg by (auto simp: Image_new_def nw)
    then show "isl (GuiMain__repeat_image can_allocate p [v, hc])"
      by (auto simp: GuiMain__repeat_image_def Let_def wd isl_def)
  }
  assume fit: "int w * hc \<le> INT_MAX \<and> int h * v \<le> INT_MAX \<and>
               can_allocate (w * nat hc, h * nat v)"
  define canvas where "canvas = \<lparr>im_mode = RGB, im_size = (w * nat hc, h * nat v),
     im_px = (\<lambda>x y. replicate (getmodebands RGB) (0 :: 8 word))\<rparr>"
  define r where "r = paste_grid p (map (\<lambda>k. k * w) [0 ..< nat hc]) (map (\<lambda>k. k * h) [0 ..< nat v]) canvas"
  have new: "Image_new can_allocate RGB (int w * hc, int h * v) = Inr canvas"
    using nonneg fit by (simp add: Image_new_def canvas_def nw not_less)
  have rows: "paste_rows p (w * nat hc) (map (\<lambda>k. k * h) [0 ..< nat v]) canvas = Inr r"
    unfolding r_def
    by (rule paste_rows_fold) (simp add: wd py_range_tiles [OF assms(2)])
  have res: "GuiMain__repeat_image can_allocate p [v, hc] = Inr r"
    by (simp add: GuiMain__repeat_image_def Let_def wd new nw py_range_tiles [OF assms(3)] rows)
  have cw: "im_width canvas = w * nat hc" "im_height canvas = h * nat v" "im_mode canvas = RGB"
    by (simp_all add: canvas_def im_width_def im_height_def)
  have px: "im_px r X Y = convert_pixel (im_mode p) RGB (im_px p (X mod w) (Y mod h))"
    if "X < w * nat hc" "Y < h * nat v" for X Y
    using paste_grid_px [of p "nat hc" "nat v" canvas X Y] that assms(2,3)
    by (simp add: r_def wd cw mult.commute)
  have tile: "im_px r (i * w + x) (j * h + y) = convert_pixel (im_mode p) RGB (im_px p x y)"
    if "i < nat hc" "j < nat v" "x < w" "y < h" for i j x y
  proof -
    have "i * w + x < Suc i * w" using that(3) by simp
    also have "\<dots> \<le> nat hc * w" using that(1) by (intro mult_le_mono1) simp
    finally have X: "i * w + x < w * nat hc" by (simp add: mult.commute)
    have "j * h + y < Suc j * h" using that(4) by simp
    also have "\<dots> \<le> nat v * h" using that(2) by (intro mult_le_mono1) simp
    finally have Y: "j * h + y < h * nat v" by (simp add: mult.commute)
    show ?thesis using px [OF X Y] that(3,4) by simp
  qed
  have sz: "im_mode r = RGB" "im_size r = (w * nat hc, h * nat v)"
    by (simp_all add: r_def canvas_def)
  show "\<exists>r. GuiMain__repeat_image can_allocate p [v, hc] = Inr r \<and>
             im_mode r = RGB \<and>
             im_size r = (w * nat hc, h * nat v) \<and>
             (\<forall>X < w * nat hc. \<forall>Y < h * nat v.
                im_px r X Y = convert_pixel (im_mode p) RGB (im_px p (X mod w) (Y mod h))) \<and>
             (\<forall>i < nat hc. \<forall>j < nat v. \<forall>x < w. \<forall>y < h.
                im_px r (i * w + x) (j * h + y) = convert_pixel (im_mode p) RGB (im_px p x y)) \<and>
             (im_mode p = RGB \<longrightarrow>
                (\<forall>i < nat hc. \<forall>j < nat v. \<forall>x < w. \<forall>y < h.
                   im_px r (i * w + x) (j * h + y) = im_px p x y))"
    using res sz px tile by (intro exI [of _ r]) auto
qed

theorem repeat_tiles_witness:
  "px_at (GuiMain__repeat_image any_canvas example_image [3, 2]) 79 5 = Some [1, 2, 3] \<and>
   isl (GuiMain__repeat_image any_canvas example_image [2147483647, 1])"
proof -
  have s: "im_size example_image = (40, 2)" by (simp add: example_image_def)
  have fit: "int 40 * 2 \<le> INT_MAX \<and> int 2 * 3 \<le> INT_MAX \<and> any_canvas (40 * nat 2, 2 * nat 3)"
    by (simp add: INT_MAX_def any_canvas_def)
  obtain r where r: "GuiMain__repeat_image any_canvas example_image [3, 2] = Inr r"
    and px: "\<forall>i < nat 2. \<forall>j < nat 3. \<forall>x < 40. \<forall>y < 2.
                im_px r (i * 40 + x) (j * 2 + y)
                  = convert_pixel (im_mode example_image) RGB (im_px example_image x y)"
    using repeat_tiles [OF s, of 3 2 any_canvas] fit by auto
  have "im_px r (1 * 40 + 39) (2 * 2 + 1)
          = convert_pixel (im_mode example_image) RGB (im_px example_image 39 1)"
    using px [rule_format, of 1 2 39 1] by simp
  then have "im_px r 79 5 = [1, 2, 3]" by (simp add: example_image_def)
  then have a: "px_at (GuiMain__repeat_image any_canvas example_image [3, 2]) 79 5 = Some [1, 2, 3]"
    by (simp add: r px_at_def)
  have unfit: "\<not> (int 40 * 1 \<le> INT_MAX \<and> int 2 * 2147483647 \<le> INT_MAX \<and>
                   any_canvas (40 * nat 1, 2 * nat 2147483647))"
    by (simp add: INT_MAX_def)
  have b: "isl (GuiMain__repeat_image any_canvas example_image [2147483647, 1])"
    using repeat_tiles [OF s, of 2147483647 1 any_canvas] unfit by simp
  from a b show ?thesis by simp
qed

text \<open>
  A pattern of one \<open>RGBA\<close> pixel \<open>(10, 20, 30, 40)\<close>, repeated once each way:
  the only tile holds \<open>(10, 20, 30)\<close>, which is not the content of the pattern.
  And the 40 by 2 pattern repeated 2147483647 times vertically, a count that the
  Repeat dialog accepts: no image is returned, whatever the memory of the machine.
\<close>

theorem repeat_tiles_counterexample:
  "px_at (GuiMain__repeat_image any_canvas one_pixel [1, 1]) 0 0 = Some [10, 20, 30] \<and>
   im_px one_pixel 0 0 = [10, 20, 30, 40] \<and>
   px_at (GuiMain__repeat_image any_canvas one_pixel [1, 1]) 0 0 \<noteq> Some (im_px one_pixel 0 0) \<and>
   isl (GuiMain__repeat_image any_canvas example_image [2147483647, 1])"
  by (simp add: px_at_def GuiMain__repeat_image_def one_pixel_def example_image_def Let_def
      Image_new_def INT_MAX_def any_canvas_def py_range_def im_width_def im_height_def
      paste_row_def paste_def)

end
